theory Spec2Isabelle
  imports Main "HOL-Library.Word" "HOL-Library.Sublist"
begin

section \<open>The video service of plugin-video (src/services/video.ts)\<close>

text \<open>
  A shallow embedding of the class \<open>VideoService\<close>. Every method becomes a function
  of the same name. The collaborators the class does not define (the HTTP client, the
  youtube-dl wrapper, ffmpeg, the transcription service, \<open>JSON.parse\<close>, the \<open>path\<close> and
  \<open>os\<close> modules of Node) are fields of an environment record \<open>env\<close>; the cache manager
  of the runtime, the local files and the trace of calls are the state \<open>world\<close>.
  A thrown exception or rejected promise is the left summand of the result.
\<close>

subsection \<open>JavaScript strings\<close>

text \<open>
  A JavaScript string is a sequence of 16-bit code units: \<open>charCodeAt\<close>, \<open>length\<close>,
  \<open>split\<close>, \<open>replace\<close> and the regular expression (which has no \<open>u\<close> flag) all
  work on code units.
\<close>

type_synonym jsstring = "16 word list"

primrec js :: "string \<Rightarrow> jsstring" where
  "js [] = []"
| "js (c # cs) = of_nat (of_char c) # js cs"

text \<open>\<open>s.startsWith(p)\<close> is \<^const>\<open>prefix\<close>. \<open>s.endsWith(p)\<close>:\<close>

definition str_endsWith :: "jsstring \<Rightarrow> jsstring \<Rightarrow> bool" where
  "str_endsWith s p = (length p \<le> length s \<and> drop (length s - length p) s = p)"

text \<open>\<open>s.includes(p)\<close>: \<open>p\<close> occurs at some position of \<open>s\<close>.\<close>

fun str_includes :: "jsstring \<Rightarrow> jsstring \<Rightarrow> bool" where
  "str_includes [] p = (p = [])"
| "str_includes (c # cs) p = (prefix p (c # cs) \<or> str_includes cs p)"

text \<open>
  \<open>s.split(sep)\<close> with a string separator: the pieces between the successive
  non-overlapping occurrences of \<open>sep\<close>, found from the left. The counter says how many
  code units of a separator just found are still to be skipped. An empty separator splits
  into single code units.
\<close>

fun split_from :: "jsstring \<Rightarrow> nat \<Rightarrow> jsstring \<Rightarrow> jsstring \<Rightarrow> jsstring list" where
  "split_from sep k piece [] = [rev piece]"
| "split_from sep (Suc k) piece (c # cs) = split_from sep k piece cs"
| "split_from sep 0 piece (c # cs) =
     (if prefix sep (c # cs) then rev piece # split_from sep (length sep - 1) [] cs
      else split_from sep 0 (c # piece) cs)"

definition str_split :: "jsstring \<Rightarrow> jsstring \<Rightarrow> jsstring list" where
  "str_split s sep = (if sep = [] then map (\<lambda>c. [c]) s else split_from sep 0 [] s)"

text \<open>\<open>xs.join(sep)\<close> on an array of strings.\<close>

fun str_join :: "jsstring list \<Rightarrow> jsstring \<Rightarrow> jsstring" where
  "str_join [] sep = []"
| "str_join [x] sep = x"
| "str_join (x # y # ys) sep = x @ sep @ str_join (y # ys) sep"

text \<open>
  \<open>s.replace(pat, rep)\<close> with a string pattern: only the first occurrence of \<open>pat\<close> is
  replaced (the replacement used by the service, one space, has no \<open>$\<close> pattern).
\<close>

fun str_replace :: "jsstring \<Rightarrow> jsstring \<Rightarrow> jsstring \<Rightarrow> jsstring" where
  "str_replace [] pat rep = (if pat = [] then rep else [])"
| "str_replace (c # cs) pat rep =
     (if prefix pat (c # cs) then rep @ drop (length pat) (c # cs)
      else c # str_replace cs pat rep)"

subsection \<open>getVideoId: the identifier of a string\<close>

text \<open>
  \<open>hash = ((hash << 5) - hash) + char; hash = hash & hash\<close>. The shift gives a signed
  32-bit value, the subtraction and the addition are exact on numbers of this size, and
  \<open>hash & hash\<close> brings the sum back to a signed 32-bit value.
\<close>

definition hash_step :: "32 word \<Rightarrow> 16 word \<Rightarrow> 32 word" where
  "hash_step hash char = word_of_int (sint (push_bit 5 hash :: 32 word) - sint hash + uint char)"

fun hash_loop :: "32 word \<Rightarrow> jsstring \<Rightarrow> 32 word" where
  "hash_loop hash [] = hash"
| "hash_loop hash (char # rest) = hash_loop (hash_step hash char) rest"

text \<open>\<open>n.toString(radix)\<close> for a non-negative integer and a radix from 2 to 36.\<close>

definition digit :: "nat \<Rightarrow> 16 word" where
  "digit d = js ''0123456789abcdefghijklmnopqrstuvwxyz'' ! d"

function toString_radix :: "nat \<Rightarrow> nat \<Rightarrow> jsstring" where
  "toString_radix radix n =
     (if n < radix \<or> radix < 2 then [digit n]
      else toString_radix radix (n div radix) @ [digit (n mod radix)])"
  by pat_completeness auto
termination
  by (relation "measure snd") auto

definition getVideoId :: "jsstring \<Rightarrow> jsstring" where
  "getVideoId url = toString_radix 36 (nat \<bar>sint (hash_loop 0 url)\<bar>)"

subsection \<open>The regular expression of processVideoFromUrl\<close>

text \<open>
  The regular expressions the service needs: a literal, alternation, sequence, and the
  greedy \<open>+\<close> applied to a character class. \<open>rx_match r s\<close> lists what is left of \<open>s\<close>
  after each way of matching \<open>r\<close> at the start of \<open>s\<close>, in the order in which the
  backtracking matcher of JavaScript tries them: the left alternative first, the longest
  repetition first.
\<close>

datatype rx = Lit jsstring | Alt rx rx | Seq rx rx | Plus "16 word \<Rightarrow> bool"

fun rx_match :: "rx \<Rightarrow> jsstring \<Rightarrow> jsstring list" where
  "rx_match (Lit l) s = (if prefix l s then [drop (length l) s] else [])"
| "rx_match (Alt a b) s = rx_match a s @ rx_match b s"
| "rx_match (Seq a b) s = concat (map (rx_match b) (rx_match a s))"
| "rx_match (Plus cls) s = map (\<lambda>k. drop k s) (rev [1 ..< Suc (length (takeWhile cls s))])"

text \<open>The class \<open>.\<close> excludes the four line terminators; the class \<open>[^\/&?]\<close>.\<close>

definition dot :: "16 word \<Rightarrow> bool" where
  "dot c = (c \<noteq> 0x0A \<and> c \<noteq> 0x0D \<and> c \<noteq> 0x2028 \<and> c \<noteq> 0x2029)"

definition id_char :: "16 word \<Rightarrow> bool" where
  "id_char c = (c \<noteq> 0x2F \<and> c \<noteq> 0x26 \<and> c \<noteq> 0x3F)"

text \<open>
  \<open>(?:youtu\.be\/|youtube\.com(?:\/embed\/|\/v\/|\/watch\?v=|\/watch\?.+&v=))\<close>,
  the part in front of the capture group.
\<close>

definition host_rx :: rx where
  "host_rx =
     Alt (Lit (js ''youtu.be/''))
         (Seq (Lit (js ''youtube.com''))
              (Alt (Lit (js ''/embed/''))
                (Alt (Lit (js ''/v/''))
                  (Alt (Lit (js ''/watch?v=''))
                       (Seq (Lit (js ''/watch?'')) (Seq (Plus dot) (Lit (js ''&v=''))))))))"

text \<open>
  The capture group \<open>([^\/&?]+)\<close> ends the expression, so its first (longest) attempt
  succeeds whenever one code unit of the class follows; otherwise the matcher backtracks
  into the part in front.
\<close>

definition match_here :: "jsstring \<Rightarrow> jsstring option" where
  "match_here s =
     (case filter (\<lambda>g. g \<noteq> []) (map (takeWhile id_char) (rx_match host_rx s)) of
        [] \<Rightarrow> None
      | g # _ \<Rightarrow> Some g)"

text \<open>\<open>url.match(re)?.[1]\<close>: the group of the leftmost match, if there is a match.\<close>

fun match_group :: "jsstring \<Rightarrow> jsstring option" where
  "match_group [] = match_here []"
| "match_group (c # cs) =
     (case match_here (c # cs) of Some g \<Rightarrow> Some g | None \<Rightarrow> match_group cs)"

subsection \<open>parseSRT\<close>

definition parseSRT :: "jsstring \<Rightarrow> jsstring" where
  "parseSRT srtContent =
     str_join (map (\<lambda>block. str_join (drop 2 (str_split block (js ''\<newline>''))) (js '' ''))
               (str_split srtContent (js ''\<newline>\<newline>'')))
          (js '' '')"

subsection \<open>Errors\<close>

text \<open>
  What the service can throw or see thrown: \<open>new Error(message)\<close>, the \<open>TypeError\<close> of
  reading a property of \<open>null\<close> or \<open>undefined\<close> or calling what is not a function, the
  \<open>SyntaxError\<close> of \<open>JSON.parse\<close>, and the failures of the collaborators.
\<close>

datatype error = Error jsstring | TypeError | SyntaxError | External jsstring

definition bindE :: "error + 'a \<Rightarrow> ('a \<Rightarrow> error + 'b) \<Rightarrow> error + 'b" where
  "bindE m f = (case m of Inl e \<Rightarrow> Inl e | Inr x \<Rightarrow> f x)"

text \<open>\<open>xs.map(f)\<close> and \<open>xs.filter(p)\<close> with a callback that may throw: the first throw ends the call.\<close>

fun first_error :: "(error + 'a) list \<Rightarrow> error + 'a list" where
  "first_error [] = Inr []"
| "first_error (r # rs) = bindE r (\<lambda>y. bindE (first_error rs) (\<lambda>ys. Inr (y # ys)))"

definition mapE :: "('a \<Rightarrow> error + 'b) \<Rightarrow> 'a list \<Rightarrow> error + 'b list" where
  "mapE f xs = first_error (map f xs)"

fun filterE :: "('a \<Rightarrow> error + bool) \<Rightarrow> 'a list \<Rightarrow> error + 'a list" where
  "filterE p [] = Inr []"
| "filterE p (x # xs) =
     bindE (p x) (\<lambda>keep. bindE (filterE p xs) (\<lambda>ys. Inr (if keep then x # ys else ys)))"

subsection \<open>Values produced by JSON.parse\<close>

text \<open>
  The numbers of JavaScript are floating point; the service only tests a number for
  truth and converts it to a string, so the type of numbers is a parameter \<open>'n\<close> and the
  two operations are passed where they are needed. An object is the list of its own
  properties, each key once.
\<close>

datatype 'n json =
    JNull
  | JBool bool
  | JNum 'n
  | JStr jsstring
  | JArr "'n json list"
  | JObj "(jsstring \<times> 'n json) list"

text \<open>
  \<open>v.name\<close> for the names the service reads (\<open>events\<close>, \<open>segs\<close>, \<open>utf8\<close>), which no
  prototype defines: a \<open>TypeError\<close> on \<open>null\<close>, the own property of an object, and
  \<open>undefined\<close> (\<open>None\<close>) on everything else.
\<close>

fun get_prop :: "'n json \<Rightarrow> jsstring \<Rightarrow> error + 'n json option" where
  "get_prop JNull name = Inl TypeError"
| "get_prop (JObj props) name = Inr (map_of props name)"
| "get_prop v name = Inr None"

text \<open>The truth value of a value or of \<open>undefined\<close>.\<close>

fun truthy :: "('n \<Rightarrow> bool) \<Rightarrow> 'n json option \<Rightarrow> bool" where
  "truthy num_truthy None = False"
| "truthy num_truthy (Some JNull) = False"
| "truthy num_truthy (Some (JBool b)) = b"
| "truthy num_truthy (Some (JNum n)) = num_truthy n"
| "truthy num_truthy (Some (JStr s)) = (s \<noteq> [])"
| "truthy num_truthy (Some (JArr vs)) = True"
| "truthy num_truthy (Some (JObj props)) = True"

text \<open>
  \<open>v.filter(...)\<close> and \<open>v.map(...)\<close> need an array: no other parsed value has a callable
  property of these names.
\<close>

fun array_of :: "'n json option \<Rightarrow> error + 'n json list" where
  "array_of (Some (JArr vs)) = Inr vs"
| "array_of v = Inl TypeError"

text \<open>
  \<open>ToString\<close>, as \<open>join\<close> applies it to the elements of an array. An array is its
  elements joined with commas, \<open>null\<close> elements as the empty string. An object is
  \<open>[object Object]\<close>, unless an own property \<open>toString\<close> (never callable in parsed JSON)
  hides the method of the prototype, which throws a \<open>TypeError\<close>.
\<close>

fun ToString :: "('n \<Rightarrow> jsstring) \<Rightarrow> 'n json \<Rightarrow> error + jsstring" where
  "ToString num_text JNull = Inr (js ''null'')"
| "ToString num_text (JBool b) = Inr (if b then js ''true'' else js ''false'')"
| "ToString num_text (JNum n) = Inr (num_text n)"
| "ToString num_text (JStr s) = Inr s"
| "ToString num_text (JArr vs) =
     bindE (first_error (map (\<lambda>v. if v = JNull then Inr [] else ToString num_text v) vs))
           (\<lambda>texts. Inr (str_join texts (js '','')))"
| "ToString num_text (JObj props) =
     (if map_of props (js ''toString'') = None then Inr (js ''[object Object]'') else Inl TypeError)"

text \<open>The text of one element in \<open>xs.join(sep)\<close>: \<open>undefined\<close> and \<open>null\<close> are empty.\<close>

fun join_text :: "('n \<Rightarrow> jsstring) \<Rightarrow> 'n json option \<Rightarrow> error + jsstring" where
  "join_text num_text None = Inr []"
| "join_text num_text (Some JNull) = Inr []"
| "join_text num_text (Some v) = ToString num_text v"

subsection \<open>parseCaption\<close>

text \<open>
  The body of the \<open>try\<close> block. \<open>JSON_parse\<close> is \<open>JSON.parse\<close>; \<open>num_truthy\<close> and
  \<open>num_text\<close> are the two operations on numbers.
\<close>

definition caption_error :: jsstring where
  "caption_error = js ''Error: Unable to parse captions''"

definition event_text :: "('n \<Rightarrow> jsstring) \<Rightarrow> 'n json \<Rightarrow> error + jsstring" where
  "event_text num_text event =
     bindE (get_prop event (js ''segs'')) (\<lambda>segs.
     bindE (array_of segs) (\<lambda>segs.
     bindE (mapE (\<lambda>seg. get_prop seg (js ''utf8'')) segs) (\<lambda>utf8s.
     bindE (mapE (join_text num_text) utf8s) (\<lambda>texts.
     Inr (str_join texts [])))))"

definition parseCaption_try ::
  "(jsstring \<Rightarrow> error + 'n json) \<Rightarrow> ('n \<Rightarrow> bool) \<Rightarrow> ('n \<Rightarrow> jsstring) \<Rightarrow> jsstring \<Rightarrow> error + jsstring" where
  "parseCaption_try JSON_parse num_truthy num_text captionContent =
     bindE (JSON_parse captionContent) (\<lambda>jsonContent.
     bindE (get_prop jsonContent (js ''events'')) (\<lambda>events.
       if truthy num_truthy events then
         bindE (array_of events) (\<lambda>events.
         bindE (filterE (\<lambda>event. bindE (get_prop event (js ''segs''))
                                    (\<lambda>segs. Inr (truthy num_truthy segs))) events) (\<lambda>events.
         bindE (mapE (event_text num_text) events) (\<lambda>texts.
         Inr (str_replace (str_join texts []) (js ''\<newline>'') (js '' '')))))
       else Inr caption_error))"

text \<open>The \<open>catch\<close> clause turns every exception of the body into the same string.\<close>

definition parseCaption ::
  "(jsstring \<Rightarrow> error + 'n json) \<Rightarrow> ('n \<Rightarrow> bool) \<Rightarrow> ('n \<Rightarrow> jsstring) \<Rightarrow> jsstring \<Rightarrow> jsstring" where
  "parseCaption JSON_parse num_truthy num_text captionContent =
     (case parseCaption_try JSON_parse num_truthy num_text captionContent of
        Inl error \<Rightarrow> caption_error
      | Inr text \<Rightarrow> text)"

subsection \<open>The collaborators and the state\<close>

type_synonym bytes = "8 word list"

text \<open>What \<open>fetch\<close> resolves to: the status and the body, read as text or as bytes.\<close>

record response =
  ok :: bool
  statusText :: jsstring
  text_body :: jsstring
  bytes_body :: bytes

text \<open>
  The metadata youtube-dl prints, with the fields the service reads: a track list per
  language is the list of the URLs of its tracks.
\<close>

record videoInfo =
  title :: jsstring
  channel :: jsstring
  description :: jsstring
  subtitles :: "(jsstring \<rightharpoonup> jsstring list) option"
  automatic_captions :: "(jsstring \<rightharpoonup> jsstring list) option"
  categories :: "jsstring list option"

text \<open>The record the pipeline returns and caches.\<close>

record transcript =
  t_id :: jsstring
  t_url :: jsstring
  t_title :: jsstring
  t_source :: jsstring
  t_description :: jsstring
  t_text :: jsstring

text \<open>
  The collaborators. Each answers with a value or throws. \<open>youtubeDl_extractAudio\<close>
  gives the bytes youtube-dl writes to its output file, \<open>ffmpeg_mp3\<close> the audio ffmpeg
  writes for the content of its input file (its \<open>end\<close> event) or the error of its \<open>error\<close>
  event; \<open>transcription\<close> is \<open>runtime.getService('TRANSCRIPTION')\<close>, absent or a
  function that returns a text or nothing.
\<close>

record 'n env =
  fetch :: "jsstring \<Rightarrow> error + response"
  youtubeDl_dumpJson :: "jsstring \<Rightarrow> error + videoInfo"
  youtubeDl_extractAudio :: "jsstring \<Rightarrow> error + bytes"
  ffmpeg_mp3 :: "bytes \<Rightarrow> error + bytes"
  transcription :: "(bytes \<Rightarrow> error + jsstring option) option"
  JSON_parse :: "jsstring \<Rightarrow> error + 'n json"
  num_truthy :: "'n \<Rightarrow> bool"
  num_text :: "'n \<Rightarrow> jsstring"
  path_join :: "jsstring \<Rightarrow> jsstring \<Rightarrow> jsstring"
  path_basename :: "jsstring \<Rightarrow> jsstring"
  tmpdir :: jsstring

text \<open>
  The trace records the calls a test would count: the cache manager, the collaborators
  and the methods of the service that the pipeline enters.
\<close>

datatype call =
    CacheGet jsstring
  | CacheSet jsstring
  | Fetch jsstring
  | YoutubeDl jsstring
  | Ffmpeg jsstring jsstring
  | Transcribe
  | FetchVideoInfo jsstring
  | GetTranscript jsstring
  | DownloadSRT jsstring
  | DownloadCaption jsstring
  | TranscribeAudio jsstring
  | DownloadAudio jsstring

text \<open>
  The state outside the service object: the store behind \<open>runtime.cacheManager\<close> (\<open>get\<close>
  gives what the last \<open>set\<close> of the key stored), the files, and the trace.
\<close>

record world =
  cache :: "jsstring \<rightharpoonup> transcript"
  files :: "jsstring \<rightharpoonup> bytes"
  calls :: "call list"

definition log_call :: "call \<Rightarrow> world \<Rightarrow> world" where
  "log_call c w = w\<lparr>calls := calls w @ [c]\<rparr>"

definition cacheKey :: jsstring where
  "cacheKey = js ''content/video''"

definition dataDir :: jsstring where
  "dataDir = js ''./content_cache''"

subsection \<open>fetchVideoInfo\<close>

definition youtubeDl_info :: "'n env \<Rightarrow> jsstring \<Rightarrow> world \<Rightarrow> (error + videoInfo) \<times> world" where
  "youtubeDl_info env url w =
     (case youtubeDl_dumpJson env url of
        Inl error \<Rightarrow> (Inl (Error (js ''Failed to fetch video information'')), log_call (YoutubeDl url) w)
      | Inr result \<Rightarrow> (Inr result, log_call (YoutubeDl url) w))"

definition fetchVideoInfo :: "'n env \<Rightarrow> jsstring \<Rightarrow> world \<Rightarrow> (error + videoInfo) \<times> world" where
  "fetchVideoInfo env url w0 =
     (let w = log_call (FetchVideoInfo url) w0 in
      if str_endsWith url (js ''.mp4'') \<or> str_includes url (js ''.mp4?'') then
        (case fetch env url of
           Inr response \<Rightarrow>
             if ok response then
               (Inr \<lparr>title = path_basename env url, channel = [], description = [],
                     subtitles = None, automatic_captions = None, categories = None\<rparr>,
                log_call (Fetch url) w)
             else youtubeDl_info env url (log_call (Fetch url) w)
         | Inl error \<Rightarrow> youtubeDl_info env url (log_call (Fetch url) w))
      else youtubeDl_info env url w)"

subsection \<open>downloadSRT and downloadCaption\<close>

definition downloadSRT :: "'n env \<Rightarrow> jsstring \<Rightarrow> world \<Rightarrow> (error + jsstring) \<times> world" where
  "downloadSRT env url w0 =
     (let w = log_call (Fetch url) (log_call (DownloadSRT url) w0) in
      case fetch env url of
        Inl error \<Rightarrow> (Inl error, w)
      | Inr response \<Rightarrow> (Inr (text_body response), w))"

definition downloadCaption :: "'n env \<Rightarrow> jsstring \<Rightarrow> world \<Rightarrow> (error + jsstring) \<times> world" where
  "downloadCaption env url w0 =
     (let w = log_call (Fetch url) (log_call (DownloadCaption url) w0) in
      case fetch env url of
        Inl error \<Rightarrow> (Inl error, w)
      | Inr response \<Rightarrow>
          if \<not> ok response then
            (Inl (Error (js ''Failed to download caption: '' @ statusText response)), w)
          else (Inr (text_body response), w))"

subsection \<open>convertMp4ToMp3, downloadAudio, transcribeAudio\<close>

text \<open>
  One run of ffmpeg from an input file to an output file: the \<open>error\<close> event when the
  input is missing or the conversion fails, otherwise the output is written and the
  \<open>end\<close> event follows.
\<close>

definition run_ffmpeg :: "'n env \<Rightarrow> jsstring \<Rightarrow> jsstring \<Rightarrow> world \<Rightarrow> (error + unit) \<times> world" where
  "run_ffmpeg env inputPath outputPath w0 =
     (let w = log_call (Ffmpeg inputPath outputPath) w0 in
      case files w inputPath of
        None \<Rightarrow> (Inl (External (js ''ENOENT'')), w)
      | Some content \<Rightarrow>
          (case ffmpeg_mp3 env content of
             Inl err \<Rightarrow> (Inl err, w)
           | Inr audio \<Rightarrow> (Inr (), w\<lparr>files := (files w)(outputPath \<mapsto> audio)\<rparr>)))"

text \<open>\<open>end\<close> resolves, \<open>error\<close> rejects with the error.\<close>

definition convertMp4ToMp3 :: "'n env \<Rightarrow> jsstring \<Rightarrow> jsstring \<Rightarrow> world \<Rightarrow> (error + unit) \<times> world" where
  "convertMp4ToMp3 env inputPath outputPath w = run_ffmpeg env inputPath outputPath w"

text \<open>
  The body of the \<open>try\<close> block of \<open>downloadAudio\<close>. For a direct \<open>.mp4\<close> URL the
  response is written to a temporary file and converted; the handler of \<open>end\<close> removes
  the temporary file and resolves, the handler of \<open>error\<close> rejects.
\<close>

definition downloadAudio_try :: "'n env \<Rightarrow> jsstring \<Rightarrow> jsstring \<Rightarrow> world \<Rightarrow> (error + unit) \<times> world" where
  "downloadAudio_try env url outputFile w =
     (if str_endsWith url (js ''.mp4'') \<or> str_includes url (js ''.mp4?'') then
        (let tempMp4File = path_join env (tmpdir env) (getVideoId url @ js ''.mp4'') in
         case fetch env url of
           Inl error \<Rightarrow> (Inl error, log_call (Fetch url) w)
         | Inr response \<Rightarrow>
             (let w1 = log_call (Fetch url) w;
                  w2 = w1\<lparr>files := (files w1)(tempMp4File \<mapsto> bytes_body response)\<rparr>
              in case run_ffmpeg env tempMp4File outputFile w2 of
                   (Inr u, w3) \<Rightarrow> (Inr (), w3\<lparr>files := (files w3)(tempMp4File := None)\<rparr>)
                 | (Inl err, w3) \<Rightarrow> (Inl err, w3)))
      else
        (case youtubeDl_extractAudio env url of
           Inl error \<Rightarrow> (Inl error, log_call (YoutubeDl url) w)
         | Inr audio \<Rightarrow>
             (let w1 = log_call (YoutubeDl url) w
              in (Inr (), w1\<lparr>files := (files w1)(outputFile \<mapsto> audio)\<rparr>))))"

definition downloadAudio :: "'n env \<Rightarrow> jsstring \<Rightarrow> jsstring option \<Rightarrow> world \<Rightarrow> (error + jsstring) \<times> world" where
  "downloadAudio env url outputFile0 w0 =
     (let outputFile =
            (case outputFile0 of
               Some file \<Rightarrow> file
             | None \<Rightarrow> path_join env dataDir (getVideoId url @ js ''.mp3''))
      in case downloadAudio_try env url outputFile (log_call (DownloadAudio url) w0) of
           (Inr u, w) \<Rightarrow> (Inr outputFile, w)
         | (Inl error, w) \<Rightarrow> (Inl (Error (js ''Failed to download audio'')), w))"

definition transcribeAudio :: "'n env \<Rightarrow> jsstring \<Rightarrow> world \<Rightarrow> (error + jsstring) \<times> world" where
  "transcribeAudio env url w0 =
     (let w = log_call (TranscribeAudio url) w0;
          mp4FilePath = path_join env dataDir (getVideoId url @ js ''.mp4'');
          mp3FilePath = path_join env dataDir (getVideoId url @ js ''.mp3'');
          (made, w1) =
            (if files w mp3FilePath = None then
               (if files w mp4FilePath \<noteq> None then convertMp4ToMp3 env mp4FilePath mp3FilePath w
                else (case downloadAudio env url (Some mp3FilePath) w of
                        (Inl error, w') \<Rightarrow> (Inl error, w')
                      | (Inr file, w') \<Rightarrow> (Inr (), w')))
             else (Inr (), w))
      in case made of
           Inl error \<Rightarrow> (Inl error, w1)
         | Inr u \<Rightarrow>
             (case files w1 mp3FilePath of
                None \<Rightarrow> (Inl (External (js ''ENOENT'')), w1)
              | Some audioBuffer \<Rightarrow>
                  (case transcription env of
                     None \<Rightarrow> (Inl (Error (js ''Transcription service not found'')), w1)
                   | Some transcribe \<Rightarrow>
                       (case transcribe audioBuffer of
                          Inl error \<Rightarrow> (Inl error, log_call Transcribe w1)
                        | Inr result \<Rightarrow>
                            (Inr (case result of
                                    None \<Rightarrow> js ''Transcription failed''
                                  | Some text \<Rightarrow> if text = [] then js ''Transcription failed'' else text),
                             log_call Transcribe w1)))))"

subsection \<open>getTranscript\<close>

text \<open>
  \<open>videoInfo.subtitles && videoInfo.subtitles.en\<close> is true when both are there (an
  array is true even when empty); \<open>en[0].url\<close> throws a \<open>TypeError\<close> on an empty list.
\<close>

definition en_tracks :: "(jsstring \<rightharpoonup> jsstring list) option \<Rightarrow> jsstring list option" where
  "en_tracks tracks = (case tracks of None \<Rightarrow> None | Some by_lang \<Rightarrow> by_lang (js ''en''))"

definition getTranscript :: "'n env \<Rightarrow> jsstring \<Rightarrow> videoInfo \<Rightarrow> world \<Rightarrow> (error + jsstring) \<times> world" where
  "getTranscript env url videoInfo w0 =
     (let w = log_call (GetTranscript url) w0 in
      case en_tracks (subtitles videoInfo) of
        Some en \<Rightarrow>
          (case en of
             [] \<Rightarrow> (Inl TypeError, w)
           | track # _ \<Rightarrow>
               (case downloadSRT env track w of
                  (Inl error, w1) \<Rightarrow> (Inl error, w1)
                | (Inr srtContent, w1) \<Rightarrow> (Inr (parseSRT srtContent), w1)))
      | None \<Rightarrow>
          (case en_tracks (automatic_captions videoInfo) of
             Some en \<Rightarrow>
               (case en of
                  [] \<Rightarrow> (Inl TypeError, w)
                | captionUrl # _ \<Rightarrow>
                    (case downloadCaption env captionUrl w of
                       (Inl error, w1) \<Rightarrow> (Inl error, w1)
                     | (Inr captionContent, w1) \<Rightarrow>
                         (Inr (parseCaption (JSON_parse env) (num_truthy env) (num_text env)
                                 captionContent), w1)))
           | None \<Rightarrow>
               if (case categories videoInfo of None \<Rightarrow> False
                   | Some cats \<Rightarrow> js ''Music'' \<in> set cats)
               then (Inr (js ''No lyrics available.''), w)
               else transcribeAudio env url w))"

subsection \<open>processVideoFromUrl\<close>

text \<open>
  \<open>url.match(...)?.[1] || ""\<close>: the captured group (never empty) or the empty string.
\<close>

definition videoId_of :: "jsstring \<Rightarrow> jsstring" where
  "videoId_of url = (case match_group url of Some g \<Rightarrow> g | None \<Rightarrow> [])"

definition cacheKey_of :: "jsstring \<Rightarrow> jsstring" where
  "cacheKey_of url = cacheKey @ js ''/'' @ getVideoId (videoId_of url)"

definition processVideoFromUrl :: "'n env \<Rightarrow> jsstring \<Rightarrow> world \<Rightarrow> (error + transcript) \<times> world" where
  "processVideoFromUrl env url w0 =
     (let videoUuid = getVideoId (videoId_of url);
          key = cacheKey @ js ''/'' @ videoUuid;
          w = log_call (CacheGet key) w0
      in case cache w key of
           Some cached \<Rightarrow> (Inr cached, w)
         | None \<Rightarrow>
             (case fetchVideoInfo env url w of
                (Inl error, w1) \<Rightarrow> (Inl error, w1)
              | (Inr videoInfo, w1) \<Rightarrow>
                  (case getTranscript env url videoInfo w1 of
                     (Inl error, w2) \<Rightarrow> (Inl error, w2)
                   | (Inr text, w2) \<Rightarrow>
                       (let result = \<lparr>t_id = videoUuid, t_url = url, t_title = title videoInfo,
                                      t_source = channel videoInfo,
                                      t_description = description videoInfo, t_text = text\<rparr>;
                            w3 = log_call (CacheSet key) w2
                        in (Inr result, w3\<lparr>cache := (cache w3)(key \<mapsto> result)\<rparr>)))))"

subsection \<open>The queue: processQueue and processVideo\<close>

text \<open>
  The two fields of the service object that change. An \<open>await\<close> is modelled as running
  the awaited call to its end: the model describes the runs in which nothing else happens
  on the event loop while a call is awaited, so one call of \<open>processVideoFromUrl\<close> is
  one step. In the service the calls of the drain loop and of \<open>checkQueue\<close> can overlap;
  what is stated about a single call of \<open>checkQueue\<close> or \<open>processVideoFromUrl\<close> holds
  for the state in which that call looks the cache up.
\<close>

record service =
  queue :: "jsstring list"
  processing :: bool

text \<open>
  The \<open>while\<close> loop of \<open>processQueue\<close>: it takes the first URL off the queue and
  awaits its processing; a rejection leaves the loop and the function with the rest of
  the queue in place.
\<close>

fun drain :: "'n env \<Rightarrow> jsstring list \<Rightarrow> world \<Rightarrow> (error + unit) \<times> jsstring list \<times> world" where
  "drain env [] w = (Inr (), [], w)"
| "drain env (url # rest) w =
     (case processVideoFromUrl env url w of
        (Inl error, w1) \<Rightarrow> (Inl error, rest, w1)
      | (Inr result, w1) \<Rightarrow> drain env rest w1)"

definition processQueue :: "'n env \<Rightarrow> service \<Rightarrow> world \<Rightarrow> (error + unit) \<times> service \<times> world" where
  "processQueue env svc w =
     (if processing svc \<or> queue svc = [] then (Inr (), svc, w)
      else
        (case drain env (queue svc) w of
           (Inl error, q, w1) \<Rightarrow> (Inl error, \<lparr>queue = q, processing = True\<rparr>, w1)
         | (Inr u, q, w1) \<Rightarrow> (Inr (), \<lparr>queue = q, processing = False\<rparr>, w1)))"

text \<open>The promise \<open>processVideo\<close> returns, as one call of \<open>checkQueue\<close> leaves it.\<close>

datatype promise = Pending | Resolved transcript | Rejected error

definition checkQueue :: "'n env \<Rightarrow> jsstring \<Rightarrow> service \<Rightarrow> world \<Rightarrow> promise \<times> world" where
  "checkQueue env url svc w =
     (if url \<in> set (queue svc) then (Pending, w)
      else
        (case processVideoFromUrl env url w of
           (Inr result, w1) \<Rightarrow> (Resolved result, w1)
         | (Inl error, w1) \<Rightarrow> (Rejected error, w1)))"

text \<open>
  \<open>checkQueue\<close> runs again every 100 ms for as long as the URL is in the queue;
  \<open>polls\<close> bounds the number of its runs that are observed.
\<close>

fun poll :: "nat \<Rightarrow> 'n env \<Rightarrow> jsstring \<Rightarrow> service \<Rightarrow> world \<Rightarrow> promise \<times> world" where
  "poll 0 env url svc w = (Pending, w)"
| "poll (Suc n) env url svc w =
     (case checkQueue env url svc w of
        (Pending, w1) \<Rightarrow> poll n env url svc w1
      | (settled, w1) \<Rightarrow> (settled, w1))"

text \<open>
  \<open>processVideo\<close>: the URL is pushed, \<open>processQueue\<close> is started (its promise is
  dropped), and the caller polls.
\<close>

definition processVideo ::
  "nat \<Rightarrow> 'n env \<Rightarrow> jsstring \<Rightarrow> service \<Rightarrow> world \<Rightarrow> promise \<times> service \<times> world" where
  "processVideo polls env url svc w =
     (case processQueue env (svc\<lparr>queue := queue svc @ [url]\<rparr>) w of
        (outcome, svc1, w1) \<Rightarrow>
          (case poll polls env url svc1 w1 of
             (p, w2) \<Rightarrow> (p, svc1, w2)))"

subsection \<open>Caption payloads, as the specification describes them\<close>

text \<open>
  A well-formed payload is an object whose \<open>events\<close> is an array of objects; an event
  has no \<open>segs\<close> or an array of objects whose \<open>utf8\<close> is a string. Its fragments are
  these strings, event by event. Other properties are allowed everywhere.
\<close>

fun seg_fragment :: "'n json \<Rightarrow> jsstring option" where
  "seg_fragment (JObj props) =
     (case map_of props (js ''utf8'') of Some (JStr s) \<Rightarrow> Some s | _ \<Rightarrow> None)"
| "seg_fragment v = None"

fun event_fragments :: "'n json \<Rightarrow> jsstring list option" where
  "event_fragments (JObj props) =
     (case map_of props (js ''segs'') of
        None \<Rightarrow> Some []
      | Some (JArr segs) \<Rightarrow> those (map seg_fragment segs)
      | Some v \<Rightarrow> None)"
| "event_fragments v = None"

fun payload_fragments :: "'n json \<Rightarrow> jsstring list option" where
  "payload_fragments (JObj props) =
     (case map_of props (js ''events'') of
        Some (JArr events) \<Rightarrow> map_option concat (those (map event_fragments events))
      | _ \<Rightarrow> None)"
| "payload_fragments v = None"

text \<open>A parsed value without an \<open>events\<close> field.\<close>

fun lacks_events :: "'n json \<Rightarrow> bool" where
  "lacks_events (JObj props) = (map_of props (js ''events'') = None)"
| "lacks_events v = True"

subsection \<open>Test doubles\<close>

text \<open>
  A runtime for concrete runs: one YouTube video with English subtitles and captions,
  one Vimeo video in the category Music without either, one direct \<open>.mp4\<close> link whose
  conversion fails, and nothing else reachable. No transcription service is registered.
\<close>

definition srt_sample :: jsstring where
  "srt_sample = js ''1\<newline>00:00:00,000 --> 00:00:02,000\<newline>Hello world\<newline>\<newline>2\<newline>00:00:02,000 --> 00:00:04,000\<newline>Second line\<newline>\<newline>''"

definition youtube_url :: jsstring where
  "youtube_url = js ''https://www.youtube.com/watch?v=dQw4w9WgXcQ''"

definition vimeo_url :: jsstring where
  "vimeo_url = js ''https://vimeo.com/76979871''"

definition mp4_url :: jsstring where
  "mp4_url = js ''https://example.com/a.mp4''"

definition srt_url :: jsstring where
  "srt_url = js ''https://subs.example.com/en.srt''"

definition caption_url :: jsstring where
  "caption_url = js ''https://caps.example.com/en.json3''"

definition mock_info :: videoInfo where
  "mock_info =
     \<lparr>title = js ''Never Gonna Give You Up'', channel = js ''Rick Astley'',
      description = js ''Official video'',
      subtitles = Some [js ''en'' \<mapsto> [srt_url]],
      automatic_captions = Some [js ''en'' \<mapsto> [caption_url]],
      categories = Some [js ''Music'']\<rparr>"

definition vimeo_info :: videoInfo where
  "vimeo_info =
     \<lparr>title = js ''Big Buck Bunny'', channel = js ''Blender'', description = [],
      subtitles = None, automatic_captions = None, categories = Some [js ''Music'']\<rparr>"

text \<open>
  Three caption payloads: one that is not JSON, one without \<open>events\<close>, and one with
  three events, the second without \<open>segs\<close>; the fragments of the last contain three
  newlines (written \<open>\n\<close> in the JSON text).
\<close>

definition caption_no_events :: jsstring where
  \<open>caption_no_events = js ''{"wireMagic":"pb3"}''\<close>

definition caption_text :: jsstring where
  \<open>caption_text =
     js ''{"events":[{"tStartMs":0,"segs":[{"utf8":"Hello'' @ [0x5C, 0x6E] @
     js ''"},{"utf8":"world"}]},{"tStartMs":5},{"segs":[{"utf8":"'' @ [0x5C, 0x6E] @
     js ''bye'' @ [0x5C, 0x6E] @ js ''"}]}]}''\<close>

definition caption_value :: "nat json" where
  "caption_value =
     JObj [(js ''events'', JArr
       [JObj [(js ''tStartMs'', JNum 0),
              (js ''segs'', JArr [JObj [(js ''utf8'', JStr (js ''Hello\<newline>''))],
                                 JObj [(js ''utf8'', JStr (js ''world''))]])],
        JObj [(js ''tStartMs'', JNum 5)],
        JObj [(js ''segs'', JArr [JObj [(js ''utf8'', JStr (js ''\<newline>bye\<newline>''))]])]])]"

definition mock_JSON_parse :: "jsstring \<Rightarrow> error + nat json" where
  "mock_JSON_parse s =
     (if s = caption_text then Inr caption_value
      else if s = caption_no_events then Inr (JObj [(js ''wireMagic'', JStr (js ''pb3''))])
      else Inl SyntaxError)"

definition mock_env :: "nat env" where
  "mock_env =
     \<lparr>fetch = (\<lambda>url.
        if url = srt_url then
          Inr \<lparr>ok = True, statusText = js ''OK'', text_body = srt_sample, bytes_body = []\<rparr>
        else if url = mp4_url then
          Inr \<lparr>ok = True, statusText = js ''OK'', text_body = [], bytes_body = [0, 1, 2]\<rparr>
        else Inl (External (js ''ENOTFOUND''))),
      youtubeDl_dumpJson = (\<lambda>url.
        if url = youtube_url then Inr mock_info
        else if url = vimeo_url then Inr vimeo_info
        else Inl (External (js ''Unsupported URL''))),
      youtubeDl_extractAudio = (\<lambda>url. Inl (External (js ''Unsupported URL''))),
      ffmpeg_mp3 = (\<lambda>content. Inl (External (js ''Invalid data found when processing input''))),
      transcription = None,
      JSON_parse = mock_JSON_parse,
      num_truthy = (\<lambda>n. n \<noteq> 0),
      num_text = toString_radix 10,
      path_join = (\<lambda>dir file. dir @ js ''/'' @ file),
      path_basename = (\<lambda>p. last (str_split p (js ''/''))),
      tmpdir = js ''/tmp''\<rparr>"

definition empty_world :: world where
  "empty_world = \<lparr>cache = Map.empty, files = Map.empty, calls = []\<rparr>"

definition idle :: service where
  "idle = \<lparr>queue = [], processing = False\<rparr>"

definition unknown_url :: jsstring where
  "unknown_url = js ''https://example.org/gone''"

text \<open>
  The records and the states the runs on the test doubles produce; \<open>unknown_world\<close>
  and \<open>failed_world\<close> follow one and two failed runs on \<open>unknown_url\<close>.
\<close>

definition youtube_record :: transcript where
  "youtube_record =
     \<lparr>t_id = js ''x4j3nu'', t_url = youtube_url, t_title = js ''Never Gonna Give You Up'',
      t_source = js ''Rick Astley'', t_description = js ''Official video'',
      t_text = js ''Hello world Second line ''\<rparr>"

definition youtube_world :: world where
  "youtube_world =
     \<lparr>cache = [js ''content/video/x4j3nu'' \<mapsto> youtube_record],
      files = Map.empty,
      calls = [CacheGet (js ''content/video/x4j3nu''), FetchVideoInfo youtube_url,
               YoutubeDl youtube_url, GetTranscript youtube_url, DownloadSRT srt_url,
               Fetch srt_url, CacheSet (js ''content/video/x4j3nu'')]\<rparr>"

definition vimeo_record :: transcript where
  "vimeo_record =
     \<lparr>t_id = js ''0'', t_url = vimeo_url, t_title = js ''Big Buck Bunny'',
      t_source = js ''Blender'', t_description = [], t_text = js ''No lyrics available.''\<rparr>"

definition vimeo_world :: world where
  "vimeo_world =
     \<lparr>cache = [js ''content/video/0'' \<mapsto> vimeo_record],
      files = Map.empty,
      calls = [CacheGet (js ''content/video/0''), FetchVideoInfo vimeo_url,
               YoutubeDl vimeo_url, GetTranscript vimeo_url,
               CacheSet (js ''content/video/0'')]\<rparr>"

definition unknown_world :: world where
  "unknown_world =
     \<lparr>cache = Map.empty, files = Map.empty,
      calls = [CacheGet (js ''content/video/0''), FetchVideoInfo unknown_url, YoutubeDl unknown_url]\<rparr>"

definition failed_world :: world where
  "failed_world =
     \<lparr>cache = Map.empty, files = Map.empty,
      calls = [CacheGet (js ''content/video/0''), FetchVideoInfo unknown_url, YoutubeDl unknown_url,
               CacheGet (js ''content/video/0''), FetchVideoInfo unknown_url, YoutubeDl unknown_url]\<rparr>"

subsection \<open>An order on states\<close>

text \<open>
  \<open>later w w'\<close>: the cache of \<open>w'\<close> is the cache of \<open>w\<close> and the trace of \<open>w'\<close> extends
  the trace of \<open>w\<close>. Everything below the cache write of \<open>processVideoFromUrl\<close> moves
  the state along this order.
\<close>

definition later :: "world \<Rightarrow> world \<Rightarrow> bool" where
  "later w w' = (cache w' = cache w \<and> prefix (calls w) (calls w'))"

section \<open>Properties\<close>

subsection \<open>Basic facts\<close>

lemma log_call_simps [simp]:
  "cache (log_call c w) = cache w"
  "files (log_call c w) = files w"
  "calls (log_call c w) = calls w @ [c]"
  by (simp_all add: log_call_def)

lemma bindE_simps [simp]:
  "bindE (Inl e) f = Inl e"
  "bindE (Inr x) f = f x"
  by (simp_all add: bindE_def)

lemma mapE_simps [simp]:
  "mapE f [] = Inr []"
  "mapE f (x # xs) = bindE (f x) (\<lambda>y. bindE (mapE f xs) (\<lambda>ys. Inr (y # ys)))"
  by (simp_all add: mapE_def)

lemma str_join_empty: "str_join xs [] = concat xs"
  by (induction xs "[] :: jsstring" rule: str_join.induct) simp_all

lemma str_replace_absent: "c \<notin> set s \<Longrightarrow> str_replace s [c] rep = s"
  by (induction s) auto

lemma str_replace_first: "c \<notin> set a \<Longrightarrow> str_replace (a @ c # b) [c] rep = a @ rep @ b"
  by (induction a) auto

subsection \<open>Identifiers and cache keys\<close>

lemma youtube_match: "match_group youtube_url = Some (js ''dQw4w9WgXcQ'')"
  by (simp add: youtube_url_def match_here_def host_rx_def id_char_def dot_def)

lemma vimeo_no_match: "match_group vimeo_url = None"
  by (simp add: vimeo_url_def match_here_def host_rx_def)

lemma mp4_no_match: "match_group mp4_url = None"
  by (simp add: mp4_url_def match_here_def host_rx_def)

lemma getVideoId_empty: "getVideoId [] = js ''0''"
  by (simp add: getVideoId_def digit_def)

lemma getVideoId_vimeo: "getVideoId vimeo_url = js ''yayj3x''"
  by (simp add: vimeo_url_def getVideoId_def hash_step_def digit_def)

lemma getVideoId_mp4: "getVideoId mp4_url = js ''sj6kkd''"
  by (simp add: mp4_url_def getVideoId_def hash_step_def digit_def)

lemma getVideoId_youtube: "getVideoId (js ''dQw4w9WgXcQ'') = js ''x4j3nu''"
  by (simp add: getVideoId_def hash_step_def digit_def)

lemma cacheKey_of_youtube: "cacheKey_of youtube_url = js ''content/video/x4j3nu''"
  unfolding cacheKey_of_def videoId_of_def youtube_match option.case getVideoId_youtube
  by (simp add: cacheKey_def)

lemma no_match_key:
  "match_group url = None \<Longrightarrow> cacheKey_of url = cacheKey @ js ''/'' @ getVideoId []"
  by (simp add: cacheKey_of_def videoId_of_def)

lemma empty_key: "cacheKey @ js ''/'' @ getVideoId [] = js ''content/video/0''"
  unfolding getVideoId_empty by (simp add: cacheKey_def)

lemma cacheKey_of_match:
  "match_group url = Some g \<Longrightarrow> cacheKey_of url = cacheKey @ js ''/'' @ getVideoId g"
  by (simp add: cacheKey_of_def videoId_of_def)

lemma videoId_of_youtube: "videoId_of youtube_url = js ''dQw4w9WgXcQ''"
  by (simp add: videoId_of_def youtube_match del: js.simps)

lemma videoId_of_vimeo: "videoId_of vimeo_url = []"
  by (simp add: videoId_of_def vimeo_no_match)

lemma cacheKey_of_vimeo: "cacheKey_of vimeo_url = js ''content/video/0''"
  using no_match_key [OF vimeo_no_match] empty_key by simp

text \<open>
  Claim C2. The specification derives the cache key from the video ID when the pattern
  matches (\<open>cacheKey_of_match\<close>) and from the raw URL otherwise. The code takes the empty
  string when the pattern does not match: for the Vimeo URL of the test doubles the key
  is \<open>content/video/0\<close>, the key of the empty string, and not \<open>content/video/yayj3x\<close>,
  the key of the URL.
\<close>

theorem cache_key_of_unmatched_url:
  "match_group vimeo_url = None \<and>
   cacheKey_of vimeo_url = js ''content/video/0'' \<and>
   cacheKey @ js ''/'' @ getVideoId vimeo_url = js ''content/video/yayj3x'' \<and>
   cacheKey_of vimeo_url \<noteq> cacheKey @ js ''/'' @ getVideoId vimeo_url"
  unfolding cacheKey_of_vimeo getVideoId_vimeo
  by (simp add: vimeo_no_match cacheKey_def)

subsection \<open>The cache\<close>

lemma processVideoFromUrl_hit:
  "cache w (cacheKey_of url) = Some r \<Longrightarrow>
   processVideoFromUrl env url w = (Inr r, log_call (CacheGet (cacheKey_of url)) w)"
  by (simp add: processVideoFromUrl_def cacheKey_of_def Let_def)

lemma processVideoFromUrl_miss:
  "cache w (cacheKey_of url) = None \<Longrightarrow>
   processVideoFromUrl env url w =
     (case fetchVideoInfo env url (log_call (CacheGet (cacheKey_of url)) w) of
        (Inl error, w1) \<Rightarrow> (Inl error, w1)
      | (Inr videoInfo, w1) \<Rightarrow>
          (case getTranscript env url videoInfo w1 of
             (Inl error, w2) \<Rightarrow> (Inl error, w2)
           | (Inr text, w2) \<Rightarrow>
               (Inr \<lparr>t_id = getVideoId (videoId_of url), t_url = url, t_title = title videoInfo,
                     t_source = channel videoInfo, t_description = description videoInfo,
                     t_text = text\<rparr>,
                (log_call (CacheSet (cacheKey_of url)) w2)
                  \<lparr>cache := (cache w2)(cacheKey_of url \<mapsto>
                     \<lparr>t_id = getVideoId (videoId_of url), t_url = url, t_title = title videoInfo,
                      t_source = channel videoInfo, t_description = description videoInfo,
                      t_text = text\<rparr>)\<rparr>)))"
  by (simp add: processVideoFromUrl_def cacheKey_of_def Let_def split: prod.splits sum.splits)

lemma processVideoFromUrl_cached:
  assumes "processVideoFromUrl env url w = (Inr r, w1)"
  shows "cache w1 (cacheKey_of url) = Some r"
proof (cases "cache w (cacheKey_of url)")
  case (Some cached)
  with assms show ?thesis
    by (auto simp: processVideoFromUrl_hit)
next
  case None
  with assms show ?thesis
    by (auto simp: processVideoFromUrl_miss split: prod.splits sum.splits)
qed


text \<open>
  Claim C3. Cache idempotence: after a run of \<open>processVideoFromUrl\<close> on a URL has
  returned a record, a second run on the same URL returns the same record, and the only
  call it makes is the cache lookup: neither \<open>fetchVideoInfo\<close> nor \<open>getTranscript\<close> is
  entered again.
\<close>

theorem cache_idempotence:
  assumes "processVideoFromUrl env url w = (Inr r, w1)"
  shows "processVideoFromUrl env url w1 =
           (Inr r, w1\<lparr>calls := calls w1 @ [CacheGet (cacheKey_of url)]\<rparr>)"
  using processVideoFromUrl_hit [OF processVideoFromUrl_cached [OF assms], of env]
  by (simp add: log_call_def)

text \<open>
  Claim C9. Two URLs that the pattern does not match have the same cache key, the
  prefix joined with the identifier of the empty string, \<open>content/video/0\<close>; a record
  that a run on one of them returned is what a following run on the other returns.
\<close>

theorem unmatched_urls_share_cache_key:
  assumes "match_group url1 = None" and "match_group url2 = None"
  shows "cacheKey_of url1 = cacheKey @ js ''/'' @ getVideoId [] \<and>
         cacheKey_of url1 = js ''content/video/0'' \<and>
         cacheKey_of url2 = cacheKey_of url1 \<and>
         (\<forall>r w1. processVideoFromUrl env url1 w = (Inr r, w1) \<longrightarrow>
            fst (processVideoFromUrl env url2 w1) = Inr r)"
proof -
  have k1: "cacheKey_of url1 = cacheKey @ js ''/'' @ getVideoId []"
    and k2: "cacheKey_of url2 = cacheKey @ js ''/'' @ getVideoId []"
    using assms by (simp_all only: no_match_key)
  have "fst (processVideoFromUrl env url2 w1) = Inr r"
    if "processVideoFromUrl env url1 w = (Inr r, w1)" for r w1
  proof -
    from that have "cache w1 (cacheKey_of url2) = Some r"
      using processVideoFromUrl_cached [of env url1 w r w1] k1 k2 by simp
    then show ?thesis
      by (simp only: processVideoFromUrl_hit fst_conv)
  qed
  with k1 k2 empty_key show ?thesis
    by simp
qed

subsection \<open>Runs on the test doubles\<close>

lemma parseSRT_sample: "parseSRT srt_sample = js ''Hello world Second line ''"
  by (simp add: parseSRT_def str_split_def srt_sample_def)

lemma fetchVideoInfo_youtube:
  "fetchVideoInfo mock_env youtube_url w =
     (Inr mock_info, log_call (YoutubeDl youtube_url) (log_call (FetchVideoInfo youtube_url) w))"
  by (simp add: fetchVideoInfo_def youtubeDl_info_def mock_env_def Let_def str_endsWith_def
        youtube_url_def)

lemma fetchVideoInfo_vimeo:
  "fetchVideoInfo mock_env vimeo_url w =
     (Inr vimeo_info, log_call (YoutubeDl vimeo_url) (log_call (FetchVideoInfo vimeo_url) w))"
  by (simp add: fetchVideoInfo_def youtubeDl_info_def mock_env_def Let_def str_endsWith_def
        vimeo_url_def youtube_url_def)

lemma fetch_srt:
  "fetch mock_env srt_url =
     Inr \<lparr>ok = True, statusText = js ''OK'', text_body = srt_sample, bytes_body = []\<rparr>"
  by (simp add: mock_env_def)

lemma getTranscript_youtube:
  "getTranscript mock_env url mock_info w =
     (Inr (js ''Hello world Second line ''),
      log_call (Fetch srt_url) (log_call (DownloadSRT srt_url) (log_call (GetTranscript url) w)))"
  by (simp add: getTranscript_def mock_info_def en_tracks_def Let_def downloadSRT_def fetch_srt
        parseSRT_sample del: js.simps)

lemma getTranscript_vimeo:
  "getTranscript mock_env url vimeo_info w =
     (Inr (js ''No lyrics available.''), log_call (GetTranscript url) w)"
  by (simp add: getTranscript_def vimeo_info_def en_tracks_def Let_def)

lemma processVideoFromUrl_youtube:
  "processVideoFromUrl mock_env youtube_url empty_world = (Inr youtube_record, youtube_world)"
proof -
  have "cache empty_world (cacheKey_of youtube_url) = None"
    by (simp add: empty_world_def)
  from processVideoFromUrl_miss [OF this, of mock_env]
  have "processVideoFromUrl mock_env youtube_url empty_world =
          (Inr \<lparr>t_id = js ''x4j3nu'', t_url = youtube_url, t_title = title mock_info,
                t_source = channel mock_info, t_description = description mock_info,
                t_text = js ''Hello world Second line ''\<rparr>,
           (log_call (CacheSet (js ''content/video/x4j3nu''))
              (log_call (Fetch srt_url) (log_call (DownloadSRT srt_url)
                (log_call (GetTranscript youtube_url)
                  (log_call (YoutubeDl youtube_url)
                    (log_call (FetchVideoInfo youtube_url)
                      (log_call (CacheGet (js ''content/video/x4j3nu'')) empty_world)))))))
             \<lparr>cache := (cache empty_world)(js ''content/video/x4j3nu'' \<mapsto>
                \<lparr>t_id = js ''x4j3nu'', t_url = youtube_url, t_title = title mock_info,
                 t_source = channel mock_info, t_description = description mock_info,
                 t_text = js ''Hello world Second line ''\<rparr>)\<rparr>)"
    by (simp add: fetchVideoInfo_youtube getTranscript_youtube cacheKey_of_youtube
          videoId_of_youtube getVideoId_youtube del: js.simps)
  then show ?thesis
    by (simp add: empty_world_def youtube_world_def youtube_record_def mock_info_def
          log_call_def del: js.simps)
qed

lemma processVideoFromUrl_vimeo:
  "processVideoFromUrl mock_env vimeo_url empty_world = (Inr vimeo_record, vimeo_world)"
proof -
  have "cache empty_world (cacheKey_of vimeo_url) = None"
    by (simp add: empty_world_def)
  from processVideoFromUrl_miss [OF this, of mock_env]
  have "processVideoFromUrl mock_env vimeo_url empty_world =
          (Inr \<lparr>t_id = js ''0'', t_url = vimeo_url, t_title = title vimeo_info,
                t_source = channel vimeo_info, t_description = description vimeo_info,
                t_text = js ''No lyrics available.''\<rparr>,
           (log_call (CacheSet (js ''content/video/0''))
              (log_call (GetTranscript vimeo_url)
                (log_call (YoutubeDl vimeo_url)
                  (log_call (FetchVideoInfo vimeo_url)
                    (log_call (CacheGet (js ''content/video/0'')) empty_world)))))
             \<lparr>cache := (cache empty_world)(js ''content/video/0'' \<mapsto>
                \<lparr>t_id = js ''0'', t_url = vimeo_url, t_title = title vimeo_info,
                 t_source = channel vimeo_info, t_description = description vimeo_info,
                 t_text = js ''No lyrics available.''\<rparr>)\<rparr>)"
    by (simp add: fetchVideoInfo_vimeo getTranscript_vimeo cacheKey_of_vimeo
          videoId_of_vimeo getVideoId_empty del: js.simps)
  then show ?thesis
    by (simp add: empty_world_def vimeo_world_def vimeo_record_def vimeo_info_def
          log_call_def del: js.simps)
qed


lemma processVideoFromUrl_youtube_miss:
  assumes "cache w (js ''content/video/x4j3nu'') = None"
  shows "fst (processVideoFromUrl mock_env youtube_url w) = Inr youtube_record"
proof -
  have "cache w (cacheKey_of youtube_url) = None"
    using assms by (simp only: cacheKey_of_youtube)
  from processVideoFromUrl_miss [OF this, of mock_env]
  have "fst (processVideoFromUrl mock_env youtube_url w) =
          Inr \<lparr>t_id = js ''x4j3nu'', t_url = youtube_url, t_title = title mock_info,
                t_source = channel mock_info, t_description = description mock_info,
                t_text = js ''Hello world Second line ''\<rparr>"
    by (simp add: fetchVideoInfo_youtube getTranscript_youtube cacheKey_of_youtube
          videoId_of_youtube getVideoId_youtube del: js.simps)
  then show ?thesis
    by (simp add: youtube_record_def mock_info_def del: js.simps)
qed

lemma unknown_no_match: "match_group unknown_url = None"
  by (simp add: unknown_url_def match_here_def host_rx_def)

lemma cacheKey_of_unknown: "cacheKey_of unknown_url = js ''content/video/0''"
  using no_match_key [OF unknown_no_match] empty_key by simp

lemma fetchVideoInfo_unknown:
  "fetchVideoInfo mock_env unknown_url w =
     (Inl (Error (js ''Failed to fetch video information'')),
      log_call (YoutubeDl unknown_url) (log_call (FetchVideoInfo unknown_url) w))"
  by (simp add: fetchVideoInfo_def youtubeDl_info_def mock_env_def Let_def str_endsWith_def
        unknown_url_def youtube_url_def vimeo_url_def)

lemma processVideoFromUrl_unknown:
  assumes "cache w (js ''content/video/0'') = None"
  shows "processVideoFromUrl mock_env unknown_url w =
           (Inl (Error (js ''Failed to fetch video information'')),
            w\<lparr>calls := calls w @ [CacheGet (js ''content/video/0''), FetchVideoInfo unknown_url,
                                   YoutubeDl unknown_url]\<rparr>)"
proof -
  have "cache w (cacheKey_of unknown_url) = None"
    using assms by (simp only: cacheKey_of_unknown)
  from processVideoFromUrl_miss [OF this, of mock_env] show ?thesis
    by (simp add: fetchVideoInfo_unknown cacheKey_of_unknown log_call_def del: js.simps)
qed

lemma processVideoFromUrl_unknown_first:
  "processVideoFromUrl mock_env unknown_url empty_world =
     (Inl (Error (js ''Failed to fetch video information'')), unknown_world)"
proof -
  have "cache empty_world (js ''content/video/0'') = None"
    by (simp add: empty_world_def)
  from processVideoFromUrl_unknown [OF this] show ?thesis
    by (simp add: empty_world_def unknown_world_def del: js.simps)
qed

lemma processVideoFromUrl_unknown_second:
  "processVideoFromUrl mock_env unknown_url unknown_world =
     (Inl (Error (js ''Failed to fetch video information'')), failed_world)"
proof -
  have "cache unknown_world (js ''content/video/0'') = None"
    by (simp add: unknown_world_def)
  from processVideoFromUrl_unknown [OF this] show ?thesis
    by (simp add: unknown_world_def failed_world_def del: js.simps)
qed

lemma mp4_url_direct: "str_endsWith mp4_url (js ''.mp4'')"
  by (simp add: str_endsWith_def mp4_url_def)

lemma fetch_mp4:
  "fetch mock_env mp4_url =
     Inr \<lparr>ok = True, statusText = js ''OK'', text_body = [], bytes_body = [0, 1, 2]\<rparr>"
  by (simp add: mock_env_def mp4_url_def srt_url_def)

text \<open>
  Witness of C3: the YouTube URL is resolved from its subtitles, and resolved again from
  the cache.
\<close>

theorem cache_idempotence_witness:
  "processVideoFromUrl mock_env youtube_url empty_world = (Inr youtube_record, youtube_world) \<and>
   processVideoFromUrl mock_env youtube_url youtube_world =
     (Inr youtube_record,
      youtube_world\<lparr>calls := calls youtube_world @ [CacheGet (js ''content/video/x4j3nu'')]\<rparr>)"
  using cache_idempotence [OF processVideoFromUrl_youtube] processVideoFromUrl_youtube
  by (simp only: cacheKey_of_youtube simp_thms)

text \<open>
  Witness of C9: the record of the Vimeo URL is returned for the direct \<open>.mp4\<close> URL.
\<close>

theorem unmatched_urls_share_cache_key_witness:
  "match_group vimeo_url = None \<and> match_group mp4_url = None \<and>
   cacheKey_of vimeo_url = js ''content/video/0'' \<and>
   cacheKey_of mp4_url = cacheKey_of vimeo_url \<and>
   processVideoFromUrl mock_env vimeo_url empty_world = (Inr vimeo_record, vimeo_world) \<and>
   fst (processVideoFromUrl mock_env mp4_url vimeo_world) = Inr vimeo_record"
  using unmatched_urls_share_cache_key [OF vimeo_no_match mp4_no_match, of mock_env empty_world]
    processVideoFromUrl_vimeo vimeo_no_match mp4_no_match
  by blast

subsection \<open>parseSRT\<close>

text \<open>
  Claim C8. The SRT example of the specification: two blocks, the two header lines of
  each dropped, the texts joined with spaces, and a trailing space from the empty last
  block.
\<close>

theorem parseSRT_example:
  "parseSRT (js ''1\<newline>00:00:00,000 --> 00:00:02,000\<newline>Hello world\<newline>\<newline>2\<newline>00:00:02,000 --> 00:00:04,000\<newline>Second line\<newline>\<newline>'')
     = js ''Hello world Second line ''"
  by (simp add: parseSRT_def str_split_def)

subsection \<open>parseCaption\<close>

lemma seg_fragment_utf8:
  "seg_fragment seg = Some s \<Longrightarrow> get_prop seg (js ''utf8'') = Inr (Some (JStr s))"
  by (cases seg) (auto split: option.splits json.splits)

lemma segs_utf8:
  "those (map seg_fragment segs) = Some fs \<Longrightarrow>
   mapE (\<lambda>seg. get_prop seg (js ''utf8'')) segs = Inr (map (\<lambda>s. Some (JStr s)) fs)"
proof (induction segs arbitrary: fs)
  case Nil
  then show ?case by simp
next
  case (Cons seg segs)
  then show ?case
    by (auto simp: seg_fragment_utf8 simp del: js.simps split: option.splits)
qed

lemma utf8_texts: "mapE (join_text text_of) (map (\<lambda>s. Some (JStr s)) fs) = Inr fs"
  by (induction fs) simp_all

lemma event_with_segs:
  assumes "get_prop event (js ''segs'') = Inr (Some (JArr segs))"
    and "those (map seg_fragment segs) = Some fs"
  shows "event_text text_of event = Inr (concat fs)"
  using assms by (simp add: event_text_def segs_utf8 utf8_texts str_join_empty del: js.simps)

lemma event_fragments_cases:
  assumes "event_fragments event = Some fs"
  shows "(get_prop event (js ''segs'') = Inr None \<and> fs = []) \<or>
         (\<exists>segs. get_prop event (js ''segs'') = Inr (Some (JArr segs)) \<and>
                 those (map seg_fragment segs) = Some fs)"
  using assms by (cases event) (auto split: option.splits json.splits)

lemma events_texts:
  assumes "those (map event_fragments events) = Some fss"
  shows "\<exists>kept texts.
           filterE (\<lambda>event. bindE (get_prop event (js ''segs''))
                              (\<lambda>segs. Inr (truthy truth segs))) events = Inr kept \<and>
           mapE (event_text text_of) kept = Inr texts \<and>
           concat texts = concat (concat fss)"
  using assms
proof (induction events arbitrary: fss)
  case Nil
  then show ?case by simp
next
  case (Cons event events)
  from Cons.prems obtain fs fss' where
    ev: "event_fragments event = Some fs" and
    rest: "those (map event_fragments events) = Some fss'" and
    fss: "fss = fs # fss'"
    by (auto simp del: js.simps split: option.splits)
  from Cons.IH [OF rest] obtain kept texts where
    k: "filterE (\<lambda>event. bindE (get_prop event (js ''segs''))
                              (\<lambda>segs. Inr (truthy truth segs))) events = Inr kept" and
    t: "mapE (event_text text_of) kept = Inr texts" and
    c: "concat texts = concat (concat fss')"
    by blast
  from event_fragments_cases [OF ev] show ?case
  proof
    assume "get_prop event (js ''segs'') = Inr None \<and> fs = []"
    with k t c fss show ?thesis by (simp del: js.simps)
  next
    assume "\<exists>segs. get_prop event (js ''segs'') = Inr (Some (JArr segs)) \<and>
                 those (map seg_fragment segs) = Some fs"
    then obtain segs where s: "get_prop event (js ''segs'') = Inr (Some (JArr segs))"
      and f: "those (map seg_fragment segs) = Some fs"
      by blast
    from event_with_segs [OF s f] have "event_text text_of event = Inr (concat fs)" .
    with s k t c fss show ?thesis by (simp del: js.simps)
  qed
qed

lemma parseCaption_well_formed:
  assumes "parse captionContent = Inr payload"
    and "payload_fragments payload = Some fragments"
  shows "parseCaption parse truth text_of captionContent =
           str_replace (concat fragments) (js ''\<newline>'') (js '' '')"
proof -
  from assms(2) obtain props events fss where
    p: "payload = JObj props" and
    e: "map_of props (js ''events'') = Some (JArr events)" and
    f: "those (map event_fragments events) = Some fss" and
    c: "fragments = concat fss"
    by (cases payload) (auto split: option.splits json.splits)
  from events_texts [OF f, of truth text_of] obtain kept texts where
    k: "filterE (\<lambda>event. bindE (get_prop event (js ''segs''))
                              (\<lambda>segs. Inr (truthy truth segs))) events = Inr kept" and
    t: "mapE (event_text text_of) kept = Inr texts" and
    cc: "concat texts = concat (concat fss)"
    by blast
  show ?thesis
    unfolding parseCaption_def parseCaption_try_def
    using assms(1) p e k t cc c
    by (simp add: str_join_empty del: js.simps)
qed

text \<open>
  Claim C6. For a well-formed payload \<open>parseCaption\<close> returns the concatenation of all
  fragments in order with only the first newline replaced by a space: a concatenation
  without a newline is returned as it is, and in \<open>before @ newline # after\<close>, with no
  newline in \<open>before\<close>, the part \<open>after\<close> is unchanged.
\<close>

theorem caption_first_newline_only:
  assumes "parse captionContent = Inr payload"
    and "payload_fragments payload = Some fragments"
  shows "(0x0A \<notin> set (concat fragments) \<longrightarrow>
            parseCaption parse truth text_of captionContent = concat fragments) \<and>
         (\<forall>before after. concat fragments = before @ 0x0A # after \<and> 0x0A \<notin> set before \<longrightarrow>
            parseCaption parse truth text_of captionContent = before @ 0x20 # after)"
proof -
  have "parseCaption parse truth text_of captionContent =
          str_replace (concat fragments) [0x0A] [0x20]"
    using parseCaption_well_formed [of parse captionContent payload fragments truth text_of] assms
    by simp
  then show ?thesis
    by (auto simp: str_replace_absent str_replace_first)
qed

text \<open>Witness of C6: three fragments with three newlines, of which the first becomes a space.\<close>

theorem caption_first_newline_only_witness:
  "mock_JSON_parse caption_text = Inr caption_value \<and>
   payload_fragments caption_value =
     Some [js ''Hello\<newline>'', js ''world'', js ''\<newline>bye\<newline>''] \<and>
   parseCaption mock_JSON_parse (\<lambda>n. n \<noteq> 0) (toString_radix 10) caption_text =
     js ''Hello world\<newline>bye\<newline>''"
proof -
  have h1: "mock_JSON_parse caption_text = Inr caption_value"
    by (simp add: mock_JSON_parse_def)
  have h2: "payload_fragments caption_value =
     Some [js ''Hello\<newline>'', js ''world'', js ''\<newline>bye\<newline>'']"
    by (simp add: caption_value_def)
  have h3: "concat [js ''Hello\<newline>'', js ''world'', js ''\<newline>bye\<newline>''] =
              js ''Hello'' @ 0x0A # js ''world\<newline>bye\<newline>'' \<and> 0x0A \<notin> set (js ''Hello'')"
    by simp
  have "parseCaption mock_JSON_parse (\<lambda>n. n \<noteq> 0) (toString_radix 10) caption_text =
          js ''Hello'' @ 0x20 # js ''world\<newline>bye\<newline>''"
    using caption_first_newline_only [of mock_JSON_parse caption_text caption_value
        "[js ''Hello\<newline>'', js ''world'', js ''\<newline>bye\<newline>'']" "\<lambda>n. n \<noteq> 0" "toString_radix 10",
        OF h1 h2] h3
    by blast
  with h1 h2 show ?thesis
    by simp
qed

text \<open>
  Claim C5. A payload that \<open>JSON.parse\<close> rejects, or whose parsed value has no
  \<open>events\<close> field, gives the string \<open>Error: Unable to parse captions\<close>; \<open>parseCaption\<close>
  returns a string in every case, it never throws.
\<close>

theorem caption_parse_failure:
  assumes "case parse captionContent of Inl e \<Rightarrow> True | Inr v \<Rightarrow> lacks_events v"
  shows "parseCaption parse truth text_of captionContent =
           js ''Error: Unable to parse captions''"
proof (cases "parse captionContent")
  case (Inl e)
  then show ?thesis
    by (simp add: parseCaption_def parseCaption_try_def caption_error_def)
next
  case (Inr v)
  with assms have "lacks_events v" by simp
  then have "get_prop v (js ''events'') = Inl TypeError \<or> get_prop v (js ''events'') = Inr None"
    by (cases v) simp_all
  with Inr show ?thesis
    by (auto simp: parseCaption_def parseCaption_try_def caption_error_def)
qed

text \<open>Witness of C5: a text that is not JSON, and an object without \<open>events\<close>.\<close>

theorem caption_parse_failure_witness:
  "(case mock_JSON_parse (js ''not json'') of Inl e \<Rightarrow> True | Inr v \<Rightarrow> lacks_events v) \<and>
   parseCaption mock_JSON_parse (\<lambda>n. n \<noteq> 0) (toString_radix 10) (js ''not json'') =
     js ''Error: Unable to parse captions'' \<and>
   (case mock_JSON_parse caption_no_events of Inl e \<Rightarrow> True | Inr v \<Rightarrow> lacks_events v) \<and>
   parseCaption mock_JSON_parse (\<lambda>n. n \<noteq> 0) (toString_radix 10) caption_no_events =
     js ''Error: Unable to parse captions''"
proof -
  have h1: "case mock_JSON_parse (js ''not json'') of Inl e \<Rightarrow> True | Inr v \<Rightarrow> lacks_events v"
    by (simp add: mock_JSON_parse_def caption_text_def caption_no_events_def)
  have h2: "case mock_JSON_parse caption_no_events of Inl e \<Rightarrow> True | Inr v \<Rightarrow> lacks_events v"
    by (simp add: mock_JSON_parse_def caption_text_def caption_no_events_def)
  show ?thesis
    using h1 h2
      caption_parse_failure [of mock_JSON_parse "js ''not json''" "\<lambda>n. n \<noteq> 0" "toString_radix 10", OF h1]
      caption_parse_failure [of mock_JSON_parse caption_no_events "\<lambda>n. n \<noteq> 0" "toString_radix 10", OF h2]
    by blast
qed

subsection \<open>getTranscript\<close>

text \<open>
  Claim C4. When the metadata has an English subtitle track and an English caption
  track, \<open>getTranscript\<close> downloads the first subtitle track and returns its text parsed
  as SRT (or the error of the download); the calls it makes are its own entry,
  \<open>downloadSRT\<close> and the HTTP request of the track: \<open>downloadCaption\<close>,
  \<open>transcribeAudio\<close> and the transcription service are not called.
\<close>

theorem manual_subtitles_first:
  assumes "subtitles videoInfo = Some subs" and "subs (js ''en'') = Some (track # tracks)"
    and "automatic_captions videoInfo = Some caps"
    and "caps (js ''en'') = Some (captionUrl # captionUrls)"
  shows "getTranscript env url videoInfo w =
           ((case fetch env track of
               Inl error \<Rightarrow> Inl error
             | Inr response \<Rightarrow> Inr (parseSRT (text_body response))),
            w\<lparr>calls := calls w @ [GetTranscript url, DownloadSRT track, Fetch track]\<rparr>)"
  using assms(1,2)
  by (simp add: getTranscript_def en_tracks_def downloadSRT_def Let_def log_call_def
        del: js.simps split: sum.splits)

text \<open>Witness of C4: the metadata of the YouTube video has both tracks.\<close>

theorem manual_subtitles_first_witness:
  "subtitles mock_info = Some [js ''en'' \<mapsto> [srt_url]] \<and>
   automatic_captions mock_info = Some [js ''en'' \<mapsto> [caption_url]] \<and>
   getTranscript mock_env youtube_url mock_info empty_world =
     (Inr (js ''Hello world Second line ''),
      empty_world\<lparr>calls := [GetTranscript youtube_url, DownloadSRT srt_url, Fetch srt_url]\<rparr>)"
proof -
  have s: "subtitles mock_info = Some [js ''en'' \<mapsto> [srt_url]]"
    and c: "automatic_captions mock_info = Some [js ''en'' \<mapsto> [caption_url]]"
    by (simp_all add: mock_info_def)
  have s': "[js ''en'' \<mapsto> [srt_url]] (js ''en'') = Some (srt_url # [])"
    and c': "[js ''en'' \<mapsto> [caption_url]] (js ''en'') = Some (caption_url # [])"
    by simp_all
  from manual_subtitles_first [OF s s' c c', of mock_env youtube_url empty_world] s c
  show ?thesis
    by (simp add: fetch_srt parseSRT_sample empty_world_def del: js.simps)
qed

text \<open>
  An English subtitle list without a track: reading \<open>en[0].url\<close> throws, and nothing is
  downloaded.
\<close>

lemma subtitles_without_track:
  assumes "subtitles videoInfo = Some subs" and "subs (js ''en'') = Some []"
  shows "getTranscript env url videoInfo w = (Inl TypeError, log_call (GetTranscript url) w)"
  using assms by (simp add: getTranscript_def en_tracks_def Let_def del: js.simps)

subsection \<open>downloadAudio\<close>

text \<open>
  For a direct \<open>.mp4\<close> URL whose download succeeds: when the conversion fails, the
  temporary file stays; when it succeeds, the temporary file is gone.
\<close>

lemma downloadAudio_temp_file_left:
  assumes "str_endsWith url (js ''.mp4'') \<or> str_includes url (js ''.mp4?'')"
    and "fetch env url = Inr response"
    and "ffmpeg_mp3 env (bytes_body response) = Inl err"
  shows "downloadAudio env url (Some outputFile) w =
           (Inl (Error (js ''Failed to download audio'')),
            w\<lparr>calls := calls w @ [DownloadAudio url, Fetch url,
                    Ffmpeg (path_join env (tmpdir env) (getVideoId url @ js ''.mp4'')) outputFile],
               files := (files w)(path_join env (tmpdir env) (getVideoId url @ js ''.mp4'')
                          \<mapsto> bytes_body response)\<rparr>)"
  using assms
  by (simp add: downloadAudio_def downloadAudio_try_def run_ffmpeg_def Let_def log_call_def
        del: js.simps)

lemma downloadAudio_temp_file_removed:
  assumes "str_endsWith url (js ''.mp4'') \<or> str_includes url (js ''.mp4?'')"
    and "fetch env url = Inr response"
    and "ffmpeg_mp3 env (bytes_body response) = Inr audio"
  shows "fst (downloadAudio env url (Some outputFile) w) = Inr outputFile \<and>
         files (snd (downloadAudio env url (Some outputFile) w))
           (path_join env (tmpdir env) (getVideoId url @ js ''.mp4'')) = None"
  using assms
  by (simp add: downloadAudio_def downloadAudio_try_def run_ffmpeg_def Let_def log_call_def
        del: js.simps)

text \<open>
  Claim C7. The specification wants the temporary container file removed after the
  conversion on the success path and on the error path. The code removes it in the
  handler of \<open>end\<close> only: on the test doubles, where ffmpeg fails, \<open>downloadAudio\<close> throws
  and the file \<open>/tmp/sj6kkd.mp4\<close> is still there.
\<close>

theorem temp_file_left_after_failed_conversion:
  "fst (downloadAudio mock_env mp4_url (Some (js ''./content_cache/sj6kkd.mp3'')) empty_world) =
     Inl (Error (js ''Failed to download audio'')) \<and>
   files (snd (downloadAudio mock_env mp4_url (Some (js ''./content_cache/sj6kkd.mp3'')) empty_world))
     (js ''/tmp/sj6kkd.mp4'') = Some [0, 1, 2]"
proof -
  have f: "ffmpeg_mp3 mock_env (bytes_body \<lparr>ok = True, statusText = js ''OK'', text_body = [],
             bytes_body = [0, 1, 2]\<rparr>) = Inl (External (js ''Invalid data found when processing input''))"
    by (simp add: mock_env_def)
  have p: "path_join mock_env (tmpdir mock_env) (getVideoId mp4_url @ js ''.mp4'') = js ''/tmp/sj6kkd.mp4''"
    unfolding getVideoId_mp4 by (simp add: mock_env_def)
  from downloadAudio_temp_file_left [OF disjI1 [OF mp4_url_direct] fetch_mp4 f,
      of "js ''./content_cache/sj6kkd.mp3''" empty_world]
  show ?thesis
    unfolding p by simp
qed

subsection \<open>The state below the cache write\<close>


lemma later_trans: "later w w1 \<Longrightarrow> later w1 w2 \<Longrightarrow> later w w2"
  by (auto simp: later_def)


lemma later_files [simp]: "later w w1 \<Longrightarrow> later w (w1\<lparr>files := f\<rparr>)"
  by (simp add: later_def)
















subsection \<open>The queue\<close>

lemma processQueue_busy: "processing svc \<Longrightarrow> processQueue env svc w = (Inr (), svc, w)"
  by (simp add: processQueue_def)

lemma poll_waiting: "url \<in> set (queue svc) \<Longrightarrow> poll n env url svc w = (Pending, w)"
  by (induction n) (simp_all add: checkQueue_def)


lemma processVideo_busy:
  "processing svc \<Longrightarrow>
   processVideo n env url svc w = (Pending, svc\<lparr>queue := queue svc @ [url]\<rparr>, w)"
  by (simp add: processVideo_def processQueue_busy poll_waiting)

lemma drain_failure:
  "processVideoFromUrl env url w = (Inl error, w1) \<Longrightarrow>
   drain env (url # rest) w = (Inl error, rest, w1)"
  by simp

lemma processQueue_failure:
  assumes "\<not> processing svc" and "queue svc = url # rest"
    and "processVideoFromUrl env url w = (Inl error, w1)"
  shows "processQueue env svc w = (Inl error, \<lparr>queue = rest, processing = True\<rparr>, w1)"
  using assms by (simp add: processQueue_def)

text \<open>
  Claim C1. The specification wants a failed job to fail alone and the drain loop to go
  on. In the code the rejection leaves \<open>processQueue\<close> with \<open>processing\<close> still true:
  after the job for \<open>unknown_url\<close> has failed, a submission of the YouTube URL stays in the
  queue and its promise is pending after any number of polls, although processing that
  URL would succeed; and a URL already queued behind the failing one is left in the queue.
\<close>

theorem failed_job_stops_the_queue:
  "processVideo 1 mock_env unknown_url idle empty_world =
     (Rejected (Error (js ''Failed to fetch video information'')),
      \<lparr>queue = [], processing = True\<rparr>, failed_world) \<and>
   (\<forall>n. processVideo n mock_env youtube_url \<lparr>queue = [], processing = True\<rparr> failed_world =
      (Pending, \<lparr>queue = [youtube_url], processing = True\<rparr>, failed_world)) \<and>
   fst (processVideoFromUrl mock_env youtube_url failed_world) = Inr youtube_record \<and>
   fst (snd (processQueue mock_env \<lparr>queue = [unknown_url, youtube_url], processing = False\<rparr>
               empty_world)) = \<lparr>queue = [youtube_url], processing = True\<rparr>"
proof -
  have a: "processVideo 1 mock_env unknown_url idle empty_world =
     (Rejected (Error (js ''Failed to fetch video information'')),
      \<lparr>queue = [], processing = True\<rparr>, failed_world)"
    by (simp add: processVideo_def processQueue_def idle_def checkQueue_def
          processVideoFromUrl_unknown_first processVideoFromUrl_unknown_second del: js.simps)
  have b: "processVideo n mock_env youtube_url \<lparr>queue = [], processing = True\<rparr> failed_world =
      (Pending, \<lparr>queue = [youtube_url], processing = True\<rparr>, failed_world)" for n
    by (simp add: processVideo_busy)
  have c: "fst (processVideoFromUrl mock_env youtube_url failed_world) = Inr youtube_record"
    by (rule processVideoFromUrl_youtube_miss) (simp add: failed_world_def)
  have d: "fst (snd (processQueue mock_env \<lparr>queue = [unknown_url, youtube_url], processing = False\<rparr>
               empty_world)) = \<lparr>queue = [youtube_url], processing = True\<rparr>"
    by (simp add: processQueue_failure [OF _ _ processVideoFromUrl_unknown_first])
  from a b c d show ?thesis
    by blast
qed



end
